theory Spec2Isabelle
  imports Complex_Main "HOL-Library.Char_ord" "HOL-Library.List_Lexorder"
begin

section \<open>Data model of WEATHER.py\<close>

text \<open>
  The script works on pandas frames. A frame is modelled as the list of its rows, a row
  as a record with one field per column. A numeric cell is a binary64 number, written as
  the rational it denotes, and a missing cell (NaN) is \<open>None\<close>; the arithmetic on cells
  rounds as binary64 does (section on binary64 below).
  A parsed timestamp is the record of the components the script reads through the
  \<open>.dt\<close> accessor; the weekday and the month are enumerations, so that
  \<open>day_name()\<close> and \<open>month_name()\<close> are total.
\<close>

datatype weekday = Mon | Tue | Wed | Thu | Fri | Sat | Sun

datatype month_of_year =
  Jan | Feb | Mar | Apr | May | Jun | Jul | Aug | Sep | Oct | Nov | Dec

record timestamp =
  ts_year :: int
  ts_month :: month_of_year
  ts_day :: int
  ts_hour :: int
  ts_weekday :: weekday

fun month_number :: "month_of_year \<Rightarrow> int" where
  "month_number Jan = 1"
| "month_number Feb = 2"
| "month_number Mar = 3"
| "month_number Apr = 4"
| "month_number May = 5"
| "month_number Jun = 6"
| "month_number Jul = 7"
| "month_number Aug = 8"
| "month_number Sep = 9"
| "month_number Oct = 10"
| "month_number Nov = 11"
| "month_number Dec = 12"

fun month_label :: "month_of_year \<Rightarrow> string" where
  "month_label Jan = ''January''"
| "month_label Feb = ''February''"
| "month_label Mar = ''March''"
| "month_label Apr = ''April''"
| "month_label May = ''May''"
| "month_label Jun = ''June''"
| "month_label Jul = ''July''"
| "month_label Aug = ''August''"
| "month_label Sep = ''September''"
| "month_label Oct = ''October''"
| "month_label Nov = ''November''"
| "month_label Dec = ''December''"

fun weekday_number :: "weekday \<Rightarrow> int" where
  "weekday_number Mon = 0"
| "weekday_number Tue = 1"
| "weekday_number Wed = 2"
| "weekday_number Thu = 3"
| "weekday_number Fri = 4"
| "weekday_number Sat = 5"
| "weekday_number Sun = 6"

fun weekday_label :: "weekday \<Rightarrow> string" where
  "weekday_label Mon = ''Monday''"
| "weekday_label Tue = ''Tuesday''"
| "weekday_label Wed = ''Wednesday''"
| "weekday_label Thu = ''Thursday''"
| "weekday_label Fri = ''Friday''"
| "weekday_label Sat = ''Saturday''"
| "weekday_label Sun = ''Sunday''"

text \<open>The accessors \<open>.dt.month\<close>, \<open>.dt.year\<close>, \<open>.dt.dayofweek\<close>, \<open>.dt.hour\<close>,
  \<open>.dt.day_name()\<close> and \<open>.dt.month_name()\<close>.\<close>

definition dt_month :: "timestamp \<Rightarrow> int" where
  "dt_month t = month_number (ts_month t)"

definition dt_year :: "timestamp \<Rightarrow> int" where
  "dt_year t = ts_year t"

definition dt_dayofweek :: "timestamp \<Rightarrow> int" where
  "dt_dayofweek t = weekday_number (ts_weekday t)"

definition dt_hour :: "timestamp \<Rightarrow> int" where
  "dt_hour t = ts_hour t"

definition dt_day_name :: "timestamp \<Rightarrow> string" where
  "dt_day_name t = weekday_label (ts_weekday t)"

definition dt_month_name :: "timestamp \<Rightarrow> string" where
  "dt_month_name t = month_label (ts_month t)"

text \<open>A calendar date (\<open>datetime.date\<close>) is the triple (year, month, day); Python
  compares two dates as it compares these triples, lexicographically.\<close>

type_synonym date = "int \<times> int \<times> int"

definition dt_date :: "timestamp \<Rightarrow> date" where
  "dt_date t = (ts_year t, month_number (ts_month t), ts_day t)"

fun date_le :: "date \<Rightarrow> date \<Rightarrow> bool" where
  "date_le (y1, m1, d1) (y2, m2, d2) =
     (y1 < y2 \<or> (y1 = y2 \<and> (m1 < m2 \<or> (m1 = m2 \<and> d1 \<le> d2))))"

text \<open>The column \<open>day_of_week\<close> holds the weekday number after \<open>load_data\<close> (line 22)
  and is overwritten with the weekday name in the filtered frame (line 204); a cell of
  that column is one or the other. Names sort as strings, numbers as numbers; a column
  never mixes both, and the order between a number and a name is fixed only to make
  the order total.\<close>

datatype day_cell = DayIndex int | DayName string

instantiation day_cell :: linorder
begin

fun less_eq_day_cell :: "day_cell \<Rightarrow> day_cell \<Rightarrow> bool" where
  "less_eq_day_cell (DayIndex i) (DayIndex j) = (i \<le> j)"
| "less_eq_day_cell (DayIndex i) (DayName t) = True"
| "less_eq_day_cell (DayName s) (DayIndex j) = False"
| "less_eq_day_cell (DayName s) (DayName t) = (s \<le> t)"

definition less_day_cell :: "day_cell \<Rightarrow> day_cell \<Rightarrow> bool" where
  "less_day_cell x y = (x \<le> y \<and> \<not> y \<le> x)"

instance
proof
  fix x y z :: day_cell
  show "(x < y) = (x \<le> y \<and> \<not> y \<le> x)"
    by (simp add: less_day_cell_def)
  show "x \<le> x"
    by (cases x) simp_all
  show "x \<le> y \<Longrightarrow> y \<le> z \<Longrightarrow> x \<le> z"
    by (cases x; cases y; cases z) auto
  show "x \<le> y \<Longrightarrow> y \<le> x \<Longrightarrow> x = y"
    by (cases x; cases y) auto
  show "x \<le> y \<or> y \<le> x"
    by (cases x; cases y) auto
qed

end

record row =
  time :: timestamp
  sunrise_iso8601 :: "timestamp option"
  sunset_iso8601 :: "timestamp option"
  temperature_2m_mean :: "rat option"
  relative_humidity_2m_mean :: "rat option"
  wind_speed_10m_mean :: "rat option"
  rain_sum_mm :: "rat option"
  month :: int
  year :: int
  day_of_week :: day_cell
  date :: date
  season :: string
  MonthType :: "string option"
  hour :: "int option"
  month_name :: "string option"

text \<open>The last three columns exist only in the filtered frame, from lines 151, 203 and
  205 on; before the assignment the field is \<open>None\<close> in every row.\<close>

type_synonym frame = "row list"

text \<open>A row of the CSV file as \<open>read_csv\<close> returns it: the timestamp columns are
  still strings. Every row carries a \<open>time\<close> string (section 3 of the specification);
  the optional sunrise and sunset cells may be empty.\<close>

record raw_row =
  raw_time :: string
  raw_sunrise_iso8601 :: "string option"
  raw_sunset_iso8601 :: "string option"
  raw_temperature_2m_mean :: "rat option"
  raw_relative_humidity_2m_mean :: "rat option"
  raw_wind_speed_10m_mean :: "rat option"
  raw_rain_sum_mm :: "rat option"

datatype error = KeyError | ValueError

text \<open>The four metric columns, the ones the sidebar offers (lines 56 to 65), and the
  cell of a row in each.\<close>

datatype metric =
  Temperature_2m_mean | Relative_humidity_2m_mean | Wind_speed_10m_mean | Rain_sum_mm

fun metric_column :: "metric \<Rightarrow> row \<Rightarrow> rat option" where
  "metric_column Temperature_2m_mean = temperature_2m_mean"
| "metric_column Relative_humidity_2m_mean = relative_humidity_2m_mean"
| "metric_column Wind_speed_10m_mean = wind_speed_10m_mean"
| "metric_column Rain_sum_mm = rain_sum_mm"

fun raw_metric_column :: "metric \<Rightarrow> raw_row \<Rightarrow> rat option" where
  "raw_metric_column Temperature_2m_mean = raw_temperature_2m_mean"
| "raw_metric_column Relative_humidity_2m_mean = raw_relative_humidity_2m_mean"
| "raw_metric_column Wind_speed_10m_mean = raw_wind_speed_10m_mean"
| "raw_metric_column Rain_sum_mm = raw_rain_sum_mm"

definition all_metrics :: "metric list" where
  "all_metrics = [Temperature_2m_mean, Relative_humidity_2m_mean, Wind_speed_10m_mean, Rain_sum_mm]"

text \<open>A frame as \<open>load_data\<close> returns it: the metric columns it has, and its rows. In a
  row, the field of a column the frame does not have is \<open>None\<close> and is never read.\<close>

record dataframe =
  columns :: "metric list"
  rows :: frame

section \<open>Binary64 arithmetic\<close>

text \<open>
  pandas holds the metric columns as float64 and computes in binary64. A finite binary64
  number is a rational \<open>k * 2 ^ p\<close> with \<open>\<bar>k\<bar> < 2 ^ 53\<close> and \<open>- 1074 \<le> p\<close>. Each
  operation returns the exact result rounded to the nearest such number, a tie going to
  the one with the even \<open>k\<close>. Overflow to infinity is not modelled: the results here stay
  far below \<open>2 ^ 1024\<close>.
\<close>

fun ilog2 :: "nat \<Rightarrow> nat" where
  "ilog2 n = (if n < 2 then 0 else Suc (ilog2 (n div 2)))"

declare ilog2.simps [simp del]

text \<open>The binary exponent of a rational: \<open>2 ^ e \<le> \<bar>q\<bar> < 2 ^ (e + 1)\<close>.\<close>

definition exponent :: "rat \<Rightarrow> int" where
  "exponent q =
     (case quotient_of \<bar>q\<bar> of
        (n, d) \<Rightarrow>
          (let e = int (ilog2 (nat n)) - int (ilog2 (nat d))
           in if 2 powi e \<le> \<bar>q\<bar> then e else e - 1))"

definition round_half_even :: "rat \<Rightarrow> int" where
  "round_half_even x =
     (let f = \<lfloor>x\<rfloor>; r = x - of_int f
      in if r < 1 / 2 then f
         else if 1 / 2 < r then f + 1
         else if even f then f else f + 1)"

definition round64 :: "rat \<Rightarrow> rat" where
  "round64 q =
     (if q = 0 then 0
      else (let p = max (exponent q) (- 1022) - 52
            in of_int (round_half_even (q / 2 powi p)) * 2 powi p))"

definition fadd :: "rat \<Rightarrow> rat \<Rightarrow> rat" where
  "fadd x y = round64 (x + y)"

definition fsub :: "rat \<Rightarrow> rat \<Rightarrow> rat" where
  "fsub x y = round64 (x - y)"

definition fdiv :: "rat \<Rightarrow> rat \<Rightarrow> rat" where
  "fdiv x y = round64 (x / y)"

text \<open>
  The sum of a float64 array as numpy computes it (\<open>ndarray.sum\<close>, pairwise summation):
  fewer than 8 numbers are added from left to right, starting from 0; up to 128 numbers
  go through eight running sums, one per position modulo 8, which are then added as a
  tree, and the numbers left over after the last full block of 8 are added to that from
  left to right; a longer array is split near its middle, at a multiple of 8.
\<close>

fun add_blocks :: "rat list \<Rightarrow> rat list \<Rightarrow> rat list \<times> rat list" where
  "add_blocks r a =
     (if length a < 8 then (r, a)
      else add_blocks (map2 fadd r (take 8 a)) (drop 8 a))"

declare add_blocks.simps [simp del]

definition unrolled_sum :: "rat list \<Rightarrow> rat" where
  "unrolled_sum a =
     (case add_blocks (take 8 a) (drop 8 a) of
        (r, rest) \<Rightarrow>
          foldl fadd
            (fadd (fadd (fadd (r ! 0) (r ! 1)) (fadd (r ! 2) (r ! 3)))
                  (fadd (fadd (r ! 4) (r ! 5)) (fadd (r ! 6) (r ! 7))))
            rest)"

definition split_point :: "nat \<Rightarrow> nat" where
  "split_point n = n div 2 - (n div 2) mod 8"

function pairwise_sum :: "rat list \<Rightarrow> rat" where
  "pairwise_sum a =
     (if length a < 8 then foldl fadd 0 a
      else if length a \<le> 128 then unrolled_sum a
      else fadd (pairwise_sum (take (split_point (length a)) a))
                (pairwise_sum (drop (split_point (length a)) a)))"
  by pat_completeness auto

termination
proof (relation "measure length")
  show "wf (measure length)"
    by simp
next
  fix a :: "rat list"
  assume "\<not> length a < 8" and "\<not> length a \<le> 128"
  then show "(take (split_point (length a)) a, a) \<in> measure length"
    by (simp add: split_point_def)
next
  fix a :: "rat list"
  assume "\<not> length a < 8" and "\<not> length a \<le> 128"
  then show "(drop (split_point (length a)) a, a) \<in> measure length"
    by (simp add: split_point_def)
qed

declare pairwise_sum.simps [simp del]

text \<open>
  The sum of a group as the grouped \<open>sum\<close> and \<open>mean\<close> of pandas compute it
  (\<open>group_sum\<close>, \<open>group_mean\<close>): compensated summation over the values of the group in
  row order, \<open>y = val - compensation; t = sumx + y; compensation = t - sumx - y;
  sumx = t\<close>.
\<close>

fun kahan :: "rat \<Rightarrow> rat \<Rightarrow> rat list \<Rightarrow> rat" where
  "kahan sumx compensation [] = sumx"
| "kahan sumx compensation (val # vals) =
     (let y = fsub val compensation;
          t = fadd sumx y
      in kahan t (fsub (fsub t sumx) y) vals)"

section \<open>load_data (lines 8 to 33)\<close>

text \<open>Lines 26 to 30.\<close>

definition get_season :: "int \<Rightarrow> string" where
  "get_season m =
     (if m \<in> set [12, 1, 2] then ''Winter''
      else if m \<in> set [3, 4, 5] then ''Spring''
      else if m \<in> set [6, 7, 8] then ''Summer''
      else ''Autumn'')"

text \<open>\<open>pd.to_datetime\<close> with its default \<open>errors='raise'\<close>: the string parser of the
  library is a parameter \<open>parse\<close>; a string it does not accept raises ValueError for the
  whole column, an empty cell becomes NaT (\<open>None\<close>).\<close>

type_synonym parser = "string \<Rightarrow> timestamp option"

fun to_datetime :: "parser \<Rightarrow> string list \<Rightarrow> error + timestamp list" where
  "to_datetime parse [] = Inr []"
| "to_datetime parse (s # cs) =
     (case parse s of
        None \<Rightarrow> Inl ValueError
      | Some t \<Rightarrow>
          (case to_datetime parse cs of
             Inl e \<Rightarrow> Inl e
           | Inr ts \<Rightarrow> Inr (t # ts)))"

fun to_datetime_opt :: "parser \<Rightarrow> string option list \<Rightarrow> error + timestamp option list" where
  "to_datetime_opt parse [] = Inr []"
| "to_datetime_opt parse (None # cs) =
     (case to_datetime_opt parse cs of
        Inl e \<Rightarrow> Inl e
      | Inr ts \<Rightarrow> Inr (None # ts))"
| "to_datetime_opt parse (Some s # cs) =
     (case parse s of
        None \<Rightarrow> Inl ValueError
      | Some t \<Rightarrow>
          (case to_datetime_opt parse cs of
             Inl e \<Rightarrow> Inl e
           | Inr ts \<Rightarrow> Inr (Some t # ts)))"

text \<open>Lines 20 to 31 for one row, given its parsed timestamps.\<close>

definition derive_row :: "raw_row \<Rightarrow> timestamp \<Rightarrow> timestamp option \<Rightarrow> timestamp option \<Rightarrow> row" where
  "derive_row r t sr ss =
     \<lparr> time = t,
       sunrise_iso8601 = sr,
       sunset_iso8601 = ss,
       temperature_2m_mean = raw_temperature_2m_mean r,
       relative_humidity_2m_mean = raw_relative_humidity_2m_mean r,
       wind_speed_10m_mean = raw_wind_speed_10m_mean r,
       rain_sum_mm = raw_rain_sum_mm r,
       month = dt_month t,
       year = dt_year t,
       day_of_week = DayIndex (dt_dayofweek t),
       date = dt_date t,
       season = get_season (dt_month t),
       MonthType = None,
       hour = None,
       month_name = None \<rparr>"

fun derive_rows ::
  "raw_row list \<Rightarrow> timestamp list \<Rightarrow> timestamp option list \<Rightarrow> timestamp option list \<Rightarrow> frame" where
  "derive_rows (r # rs) (t # ts) (sr # srs) (ss # sss) =
     derive_row r t sr ss # derive_rows rs ts srs sss"
| "derive_rows _ _ _ _ = []"

text \<open>
  Line 10, \<open>dropna(axis=1, how='all')\<close>, drops every column that has no value in any
  row. A metric column stays when some row has a value for it. In a table without rows
  every column is dropped, \<open>time\<close> included, and line 13 raises KeyError; with at least
  one row the \<open>time\<close> column stays. A sunrise or sunset column that is absent or dropped
  is a column of empty cells here; converting it leaves it so, as skipping the conversion
  (lines 14 and 16) does.
\<close>

definition dropna_columns :: "raw_row list \<Rightarrow> metric list" where
  "dropna_columns raw =
     filter (\<lambda>c. list_ex (\<lambda>r. raw_metric_column c r \<noteq> None) raw) all_metrics"

definition load_data :: "parser \<Rightarrow> raw_row list \<Rightarrow> error + dataframe" where
  "load_data parse raw =
     (if raw = [] then Inl KeyError
      else
        (case to_datetime parse (map raw_time raw) of
           Inl e \<Rightarrow> Inl e
         | Inr tms \<Rightarrow>
             (case to_datetime_opt parse (map raw_sunrise_iso8601 raw) of
                Inl e \<Rightarrow> Inl e
              | Inr sunrises \<Rightarrow>
                  (case to_datetime_opt parse (map raw_sunset_iso8601 raw) of
                     Inl e \<Rightarrow> Inl e
                   | Inr sunsets \<Rightarrow>
                       Inr \<lparr> columns = dropna_columns raw,
                             rows = derive_rows raw tms sunrises sunsets \<rparr>))))"

section \<open>The filtered frame (lines 68 to 71)\<close>

text \<open>\<open>date_range\<close> is what the date widget returns: a sequence of no, one or two
  dates. Indexing with a boolean mask keeps the rows where the mask holds, in order.\<close>

definition df_filtered :: "date list \<Rightarrow> frame \<Rightarrow> frame" where
  "df_filtered date_range df =
     (if length date_range = 2
      then filter (\<lambda>r. date_le (date_range ! 0) (date r) \<and> date_le (date r) (date_range ! 1)) df
      else df)"

section \<open>Grouped aggregates\<close>

text \<open>The grouped \<open>sum\<close> and \<open>mean\<close> skip missing values; the sum of no value is 0,
  the mean of no value is missing.\<close>

definition groupby_sum :: "rat option list \<Rightarrow> rat" where
  "groupby_sum xs = kahan 0 0 (List.map_filter (\<lambda>x. x) xs)"

definition groupby_mean :: "rat option list \<Rightarrow> rat option" where
  "groupby_mean xs =
     (let vs = List.map_filter (\<lambda>x. x) xs
      in if vs = [] then None else Some (fdiv (kahan 0 0 vs) (of_nat (length vs))))"

text \<open>\<open>Series.sum\<close>, \<open>Series.mean\<close> and \<open>Series.max\<close>: a missing value counts as 0 in
  the sum; the mean is that sum divided by the number of values present, and is missing
  when there is none.\<close>

definition nansum :: "rat option list \<Rightarrow> rat" where
  "nansum xs = pairwise_sum (map (case_option 0 (\<lambda>x. x)) xs)"

definition nanmean :: "rat option list \<Rightarrow> rat option" where
  "nanmean xs =
     (let count = length (List.map_filter (\<lambda>x. x) xs)
      in if count = 0 then None else Some (fdiv (nansum xs) (of_nat count)))"

definition nanmax :: "rat option list \<Rightarrow> rat option" where
  "nanmax xs =
     (let vs = List.map_filter (\<lambda>x. x) xs
      in if vs = [] then None else Some (Max (set vs)))"

text \<open>\<open>groupby('month')\<close>: one group per distinct month of the frame, the groups in
  ascending order of the key.\<close>

definition month_keys :: "frame \<Rightarrow> int list" where
  "month_keys df = sort (remdups (map month df))"

definition month_group :: "frame \<Rightarrow> int \<Rightarrow> frame" where
  "month_group df m = filter (\<lambda>r. month r = m) df"

definition groupby_month_sum :: "(row \<Rightarrow> rat option) \<Rightarrow> frame \<Rightarrow> (int \<times> rat) list" where
  "groupby_month_sum col df =
     map (\<lambda>m. (m, groupby_sum (map col (month_group df m)))) (month_keys df)"

definition groupby_month_mean ::
  "(row \<Rightarrow> rat option) \<Rightarrow> frame \<Rightarrow> (int \<times> rat option) list" where
  "groupby_month_mean col df =
     map (\<lambda>m. (m, groupby_mean (map col (month_group df m)))) (month_keys df)"

text \<open>Line 119.\<close>

definition monthly_avg :: "metric \<Rightarrow> frame \<Rightarrow> (int \<times> rat option) list" where
  "monthly_avg selected_metric df = groupby_month_mean (metric_column selected_metric) df"

text \<open>Line 149.\<close>

definition monthly_rain :: "frame \<Rightarrow> (int \<times> rat) list" where
  "monthly_rain df = groupby_month_sum rain_sum_mm df"

text \<open>The mean of a series of numbers (\<open>monthly_rain.mean()\<close>): missing (NaN) for the
  empty series.\<close>

definition series_mean :: "(int \<times> rat) list \<Rightarrow> rat option" where
  "series_mean s = nanmean (map (\<lambda>(m, v). Some v) s)"

text \<open>Line 150: the index of the entries above the mean; a comparison with NaN is false.\<close>

definition wet_months :: "frame \<Rightarrow> int list" where
  "wet_months df =
     (case series_mean (monthly_rain df) of
        None \<Rightarrow> []
      | Some mu \<Rightarrow> map fst (filter (\<lambda>(m, total). total > mu) (monthly_rain df)))"

text \<open>Line 151.\<close>

definition assign_MonthType :: "frame \<Rightarrow> frame" where
  "assign_MonthType df =
     map (\<lambda>r. r\<lparr>MonthType := Some (if month r \<in> set (wet_months df) then ''Wet'' else ''Dry'')\<rparr>) df"

text \<open>Line 166.\<close>

definition monthly_rainfall :: "frame \<Rightarrow> (int \<times> rat) list" where
  "monthly_rainfall df = groupby_month_sum rain_sum_mm df"

section \<open>Temperature heatmaps (lines 203 to 244)\<close>

text \<open>Lines 203 to 205.\<close>

definition assign_hour :: "frame \<Rightarrow> frame" where
  "assign_hour df = map (\<lambda>r. r\<lparr>hour := Some (dt_hour (time r))\<rparr>) df"

definition assign_day_of_week :: "frame \<Rightarrow> frame" where
  "assign_day_of_week df = map (\<lambda>r. r\<lparr>day_of_week := DayName (dt_day_name (time r))\<rparr>) df"

definition assign_month_name :: "frame \<Rightarrow> frame" where
  "assign_month_name df = map (\<lambda>r. r\<lparr>month_name := Some (dt_month_name (time r))\<rparr>) df"

text \<open>
  A pivot table: the row labels and, per column label, the cells of that column, one
  per row label; a missing cell (NaN) is \<open>None\<close>.

  \<open>pivot_table(index, columns, values, aggfunc='mean')\<close> groups the rows by the pair
  of keys (a row with a missing key belongs to no group), takes the mean of the values
  of each group, drops the groups whose mean is missing (\<open>dropna=True\<close>), and lays the
  rest out with the row labels and the column labels each in ascending order. A
  combination without a group is a missing cell. The last step of the library, dropping
  columns that are missing throughout, finds none: every column label comes from a
  group with a mean.
\<close>

record ('a, 'b) table =
  tbl_index :: "'a list"
  tbl_columns :: "('b \<times> rat option list) list"

definition group_mean ::
  "(row \<Rightarrow> 'a option) \<Rightarrow> (row \<Rightarrow> 'b option) \<Rightarrow> (row \<Rightarrow> rat option) \<Rightarrow> frame \<Rightarrow> 'a \<Rightarrow> 'b \<Rightarrow> rat option" where
  "group_mean rkey ckey val df a b =
     groupby_mean (map val (filter (\<lambda>r. rkey r = Some a \<and> ckey r = Some b) df))"

definition group_keys ::
  "(row \<Rightarrow> 'a option) \<Rightarrow> (row \<Rightarrow> 'b option) \<Rightarrow> frame \<Rightarrow> ('a \<times> 'b) list" where
  "group_keys rkey ckey df =
     remdups (List.map_filter
       (\<lambda>r. case rkey r of
               None \<Rightarrow> None
             | Some a \<Rightarrow> (case ckey r of None \<Rightarrow> None | Some b \<Rightarrow> Some (a, b))) df)"

definition pivot_table ::
  "(row \<Rightarrow> 'a::linorder option) \<Rightarrow> (row \<Rightarrow> 'b::linorder option) \<Rightarrow> (row \<Rightarrow> rat option) \<Rightarrow> frame
     \<Rightarrow> ('a, 'b) table" where
  "pivot_table rkey ckey val df =
     (let ks = filter (\<lambda>(a, b). group_mean rkey ckey val df a b \<noteq> None) (group_keys rkey ckey df);
          idx = sort (remdups (map fst ks));
          cols = sort (remdups (map snd ks))
      in \<lparr> tbl_index = idx,
           tbl_columns = map (\<lambda>b. (b, map (\<lambda>a. group_mean rkey ckey val df a b) idx)) cols \<rparr>)"

text \<open>\<open>table[labels]\<close>: the columns with these labels, in this order; KeyError when a
  label is not a column of the table.\<close>

definition select_columns :: "'b list \<Rightarrow> ('a, 'b) table \<Rightarrow> error + ('a, 'b) table" where
  "select_columns labels t =
     (case those (map (\<lambda>l. map_option (Pair l) (map_of (tbl_columns t) l)) labels) of
        None \<Rightarrow> Inl KeyError
      | Some cs \<Rightarrow> Inr (t\<lparr>tbl_columns := cs\<rparr>))"

definition days_order :: "string list" where
  "days_order =
     [''Monday'', ''Tuesday'', ''Wednesday'', ''Thursday'', ''Friday'', ''Saturday'', ''Sunday'']"

definition months_order :: "string list" where
  "months_order =
     [''January'', ''February'', ''March'', ''April'', ''May'', ''June'',
      ''July'', ''August'', ''September'', ''October'', ''November'', ''December'']"

text \<open>Lines 212 to 221: hour by day name.\<close>

definition heatmap_data_by_hour :: "frame \<Rightarrow> error + (int, day_cell) table" where
  "heatmap_data_by_hour df =
     select_columns (map DayName days_order)
       (pivot_table hour (\<lambda>r. Some (day_of_week r)) temperature_2m_mean df)"

text \<open>Lines 234 to 244: day name by month name.\<close>

definition heatmap_data_by_day :: "frame \<Rightarrow> error + (day_cell, string) table" where
  "heatmap_data_by_day df =
     select_columns months_order
       (pivot_table (\<lambda>r. Some (day_of_week r)) month_name temperature_2m_mean df)"

section \<open>Reading a metric column\<close>

text \<open>
  \<open>df[label]\<close> and \<open>df.groupby(...)[label]\<close> raise KeyError when the frame has no
  column of that label. Filtering and assigning columns remove no column, so the
  filtered frame has the metric columns \<open>load_data\<close> returned; they are the argument
  \<open>cols\<close> of the definitions of this section. These are the lines of the script that
  read a metric column, each with the value it computes when the column is there.
\<close>

definition getitem :: "metric list \<Rightarrow> metric \<Rightarrow> error + (row \<Rightarrow> rat option)" where
  "getitem cols c = (if c \<in> set cols then Inr (metric_column c) else Inl KeyError)"

text \<open>Lines 77 to 83: mean and maximum of the temperature, mean of the humidity, sum of
  the rainfall.\<close>

definition key_metrics ::
  "metric list \<Rightarrow> frame \<Rightarrow> error + (rat option \<times> rat option \<times> rat option \<times> rat)" where
  "key_metrics cols df =
     (case getitem cols Temperature_2m_mean of
        Inl e \<Rightarrow> Inl e
      | Inr temperature \<Rightarrow>
          (case getitem cols Relative_humidity_2m_mean of
             Inl e \<Rightarrow> Inl e
           | Inr humidity \<Rightarrow>
               (case getitem cols Rain_sum_mm of
                  Inl e \<Rightarrow> Inl e
                | Inr rain \<Rightarrow>
                    Inr (nanmean (map temperature df), nanmax (map temperature df),
                         nanmean (map humidity df), nansum (map rain df)))))"

text \<open>Line 119.\<close>

definition monthly_avg_in ::
  "metric list \<Rightarrow> metric \<Rightarrow> frame \<Rightarrow> error + (int \<times> rat option) list" where
  "monthly_avg_in cols selected_metric df =
     (case getitem cols selected_metric of
        Inl e \<Rightarrow> Inl e
      | Inr col \<Rightarrow> Inr (groupby_month_mean col df))"

text \<open>Line 149.\<close>

definition monthly_rain_in :: "metric list \<Rightarrow> frame \<Rightarrow> error + (int \<times> rat) list" where
  "monthly_rain_in cols df =
     (case getitem cols Rain_sum_mm of
        Inl e \<Rightarrow> Inl e
      | Inr col \<Rightarrow> Inr (groupby_month_sum col df))"

text \<open>Lines 149 to 151: the filtered frame with its \<open>MonthType\<close> column.\<close>

definition MonthType_in :: "metric list \<Rightarrow> frame \<Rightarrow> error + frame" where
  "MonthType_in cols df =
     (case monthly_rain_in cols df of
        Inl e \<Rightarrow> Inl e
      | Inr s \<Rightarrow> Inr (assign_MonthType df))"

text \<open>Line 166.\<close>

definition monthly_rainfall_in :: "metric list \<Rightarrow> frame \<Rightarrow> error + (int \<times> rat) list" where
  "monthly_rainfall_in cols df =
     (case getitem cols Rain_sum_mm of
        Inl e \<Rightarrow> Inl e
      | Inr col \<Rightarrow> Inr (groupby_month_sum col df))"

text \<open>Lines 212 to 221 and 234 to 244.\<close>

definition heatmap_data_by_hour_in ::
  "metric list \<Rightarrow> frame \<Rightarrow> error + (int, day_cell) table" where
  "heatmap_data_by_hour_in cols df =
     (case getitem cols Temperature_2m_mean of
        Inl e \<Rightarrow> Inl e
      | Inr col \<Rightarrow>
          select_columns (map DayName days_order)
            (pivot_table hour (\<lambda>r. Some (day_of_week r)) col df))"

definition heatmap_data_by_day_in ::
  "metric list \<Rightarrow> frame \<Rightarrow> error + (day_cell, string) table" where
  "heatmap_data_by_day_in cols df =
     (case getitem cols Temperature_2m_mean of
        Inl e \<Rightarrow> Inl e
      | Inr col \<Rightarrow>
          select_columns months_order
            (pivot_table (\<lambda>r. Some (day_of_week r)) month_name col df))"

section \<open>The script as steps on a store of frames\<close>

text \<open>
  Frames are objects: a variable holds the address of a frame, and an assignment to a
  column changes the frame at that address. Indexing a frame with a boolean mask
  (line 69) and \<open>copy()\<close> (line 71) each build a new frame at a new address.
\<close>

record state =
  store :: "nat \<Rightarrow> frame option"
  fresh :: nat
  var_df :: nat
  var_df_filtered :: "nat option"

text \<open>Line 35: \<open>df\<close> is bound to the frame \<open>load_data\<close> returned.\<close>

definition session_start :: "frame \<Rightarrow> state" where
  "session_start df =
     \<lparr> store = Map.empty(0 \<mapsto> df), fresh = 1, var_df = 0, var_df_filtered = None \<rparr>"

definition new_frame :: "frame \<Rightarrow> state \<Rightarrow> nat \<times> state" where
  "new_frame f s = (fresh s, s\<lparr>store := (store s)(fresh s \<mapsto> f), fresh := Suc (fresh s)\<rparr>)"

text \<open>Lines 68 to 71.\<close>

definition filter_step :: "date list \<Rightarrow> state \<Rightarrow> state" where
  "filter_step date_range s =
     (case store s (var_df s) of
        None \<Rightarrow> s
      | Some df \<Rightarrow>
          (case new_frame (df_filtered date_range df) s of
             (a, s') \<Rightarrow> s'\<lparr>var_df_filtered := Some a\<rparr>))"

text \<open>\<open>df_filtered[column] = ...\<close>: the frame the variable points to is replaced, at
  its address, by the frame with the new column.\<close>

definition setitem_step :: "(frame \<Rightarrow> frame) \<Rightarrow> state \<Rightarrow> state" where
  "setitem_step assign s =
     (case var_df_filtered s of
        None \<Rightarrow> s
      | Some a \<Rightarrow>
          (case store s a of
             None \<Rightarrow> s
           | Some f \<Rightarrow> s\<lparr>store := (store s)(a \<mapsto> assign f)\<rparr>))"

text \<open>Lines 68 to 71, 151 and 203 to 205, in the order of the script: the steps that
  build or change a frame, in a run that reaches line 205.\<close>

definition run_script :: "date list \<Rightarrow> state \<Rightarrow> state" where
  "run_script date_range s =
     setitem_step assign_month_name
       (setitem_step assign_day_of_week
         (setitem_step assign_hour
           (setitem_step assign_MonthType
             (filter_step date_range s))))"

text \<open>The same derivations as a function of the loaded frame.\<close>

definition filtered_view :: "date list \<Rightarrow> frame \<Rightarrow> frame" where
  "filtered_view date_range df =
     assign_month_name (assign_day_of_week (assign_hour (assign_MonthType (df_filtered date_range df))))"

section \<open>The specification's wording of the monthly aggregates\<close>

text \<open>
  Section 4.1 of the specification: the total rainfall of a month within the filtered
  rows, the mean of those monthly totals over the months present, and the mean of a
  metric over the rows of a month. They are written here from the specification, per
  month and over the set of months present, to be compared with \<open>monthly_rain\<close>,
  \<open>wet_months\<close> and \<open>monthly_avg\<close> above, which follow the code. A row without a value
  adds nothing to its month. The sums are binary64 sums, added up as the library does,
  the months in ascending order.
\<close>

definition month_total :: "frame \<Rightarrow> int \<Rightarrow> rat" where
  "month_total df m = kahan 0 0 (List.map_filter rain_sum_mm (filter (\<lambda>r. month r = m) df))"

definition mean_monthly_total :: "frame \<Rightarrow> rat" where
  "mean_monthly_total df =
     fdiv (pairwise_sum (map (month_total df) (sorted_list_of_set (month ` set df))))
          (of_nat (card (month ` set df)))"

text \<open>The mean of a metric over the rows of a month that have a value for it; missing
  when no row of the month has one.\<close>

definition month_mean :: "(row \<Rightarrow> rat option) \<Rightarrow> frame \<Rightarrow> int \<Rightarrow> rat option" where
  "month_mean col df m =
     (let present = List.map_filter col (filter (\<lambda>r. month r = m) df)
      in if present = [] then None
         else Some (fdiv (kahan 0 0 present) (of_nat (length present))))"

text \<open>A row of the file whose timestamps all parse: the \<open>time\<close> string, and the sunrise
  and sunset strings where the cell is not empty.\<close>

definition cell_parses :: "parser \<Rightarrow> string option \<Rightarrow> bool" where
  "cell_parses parse c = (case c of None \<Rightarrow> True | Some s \<Rightarrow> parse s \<noteq> None)"

definition row_parses :: "parser \<Rightarrow> raw_row \<Rightarrow> bool" where
  "row_parses parse r =
     (parse (raw_time r) \<noteq> None
      \<and> cell_parses parse (raw_sunrise_iso8601 r)
      \<and> cell_parses parse (raw_sunset_iso8601 r))"

section \<open>Sample inputs\<close>

definition stamp :: "int \<Rightarrow> month_of_year \<Rightarrow> int \<Rightarrow> weekday \<Rightarrow> timestamp" where
  "stamp y m d w = \<lparr> ts_year = y, ts_month = m, ts_day = d, ts_hour = 0, ts_weekday = w \<rparr>"

definition sample_parse :: parser where
  "sample_parse = map_of
     [(''2020-01-06'', stamp 2020 Jan 6 Mon),
      (''2020-01-08'', stamp 2020 Jan 8 Wed),
      (''2020-02-03'', stamp 2020 Feb 3 Mon),
      (''2020-03-04'', stamp 2020 Mar 4 Wed)]"

definition sample_raw :: "string \<Rightarrow> rat option \<Rightarrow> rat option \<Rightarrow> raw_row" where
  "sample_raw s temp rain =
     \<lparr> raw_time = s, raw_sunrise_iso8601 = None, raw_sunset_iso8601 = None,
       raw_temperature_2m_mean = temp, raw_relative_humidity_2m_mean = None,
       raw_wind_speed_10m_mean = None, raw_rain_sum_mm = rain \<rparr>"

definition sample_row :: "timestamp \<Rightarrow> rat option \<Rightarrow> rat option \<Rightarrow> row" where
  "sample_row t temp rain = derive_row (sample_raw [] temp rain) t None None"

text \<open>Monthly rainfall totals 10, 10 and 10.\<close>

definition equal_totals_frame :: frame where
  "equal_totals_frame =
     [sample_row (stamp 2020 Jan 6 Mon) (Some 20) (Some 10),
      sample_row (stamp 2020 Feb 3 Mon) (Some 21) (Some 4),
      sample_row (stamp 2020 Feb 5 Wed) (Some 22) (Some 6),
      sample_row (stamp 2020 Mar 4 Wed) None (Some 10)]"

text \<open>Monthly rainfall totals 5 and 15.\<close>

definition two_totals_frame :: frame where
  "two_totals_frame =
     [sample_row (stamp 2020 Jan 6 Mon) (Some 20) (Some 5),
      sample_row (stamp 2020 Feb 3 Mon) (Some 21) (Some 15)]"

text \<open>Rows on a Monday and on a Wednesday only.\<close>

definition monday_wednesday_frame :: frame where
  "monday_wednesday_frame =
     [sample_row (stamp 2020 Jan 8 Wed) (Some 22) (Some 1),
      sample_row (stamp 2020 Jan 6 Mon) (Some 20) (Some 0)]"

text \<open>January without any rainfall value, February with one.\<close>

definition missing_rain_frame :: frame where
  "missing_rain_frame =
     [sample_row (stamp 2020 Jan 6 Mon) (Some 20) None,
      sample_row (stamp 2020 Jan 8 Wed) (Some 22) None,
      sample_row (stamp 2020 Feb 3 Mon) (Some 21) (Some 8)]"

definition negative_rain_frame :: frame where
  "negative_rain_frame =
     [sample_row (stamp 2020 Jan 6 Mon) (Some 20) None,
      sample_row (stamp 2020 Feb 3 Mon) (Some 21) (Some (- 2))]"

text \<open>Rainfall 0.7 in each of three months: the cell is the binary64 number nearest to
  7/10.\<close>

definition tenths_frame :: frame where
  "tenths_frame =
     [sample_row (stamp 2020 Jan 6 Mon) (Some 20) (Some (round64 (7 / 10))),
      sample_row (stamp 2020 Feb 3 Mon) (Some 21) (Some (round64 (7 / 10))),
      sample_row (stamp 2020 Mar 4 Wed) (Some 22) (Some (round64 (7 / 10)))]"

text \<open>One month only.\<close>

definition january_frame :: frame where
  "january_frame =
     [sample_row (stamp 2020 Jan 6 Mon) (Some 20) (Some (round64 (7 / 10))),
      sample_row (stamp 2020 Jan 8 Wed) (Some 22) (Some (round64 (1 / 10)))]"

definition sample_table :: "raw_row list" where
  "sample_table =
     [sample_raw ''2020-01-06'' (Some 20) (Some 5),
      sample_raw ''2020-02-03'' (Some 21) (Some 15)]"

text \<open>A file without any rainfall value.\<close>

definition no_rain_table :: "raw_row list" where
  "no_rain_table =
     [sample_raw ''2020-01-06'' (Some 20) None,
      sample_raw ''2020-02-03'' (Some 21) None]"

definition broken_table :: "raw_row list" where
  "broken_table =
     [sample_raw ''2020-01-06'' (Some 20) (Some 5),
      sample_raw ''06/01/2020 ??'' (Some 21) (Some 15)]"

section \<open>Season of a month\<close>

text \<open>
  Claim C3. \<open>get_season\<close> returns one of the four season names for every argument; on
  the months 1 to 12 it is the fixed table Winter for 12, 1, 2, Spring for 3, 4, 5,
  Summer for 6, 7, 8 and Autumn for 9, 10, 11, so that the four seasons split the twelve
  months into four sets of three.
\<close>

theorem get_season_partition:
  "(\<forall>m. get_season m \<in> {''Winter'', ''Spring'', ''Summer'', ''Autumn''})
   \<and> map get_season [1, 2, 3, 4, 5, 6, 7, 8, 9, 10, 11, 12] =
       [''Winter'', ''Winter'', ''Spring'', ''Spring'', ''Spring'', ''Summer'',
        ''Summer'', ''Summer'', ''Autumn'', ''Autumn'', ''Autumn'', ''Winter'']
   \<and> {m. 1 \<le> m \<and> m \<le> 12 \<and> get_season m = ''Winter''} = {12, 1, 2}
   \<and> {m. 1 \<le> m \<and> m \<le> 12 \<and> get_season m = ''Spring''} = {3, 4, 5}
   \<and> {m. 1 \<le> m \<and> m \<le> 12 \<and> get_season m = ''Summer''} = {6, 7, 8}
   \<and> {m. 1 \<le> m \<and> m \<le> 12 \<and> get_season m = ''Autumn''} = {9, 10, 11}"
proof -
  have total: "\<forall>m. get_season m \<in> {''Winter'', ''Spring'', ''Summer'', ''Autumn''}"
    by (simp add: get_season_def)
  have table: "map get_season [1, 2, 3, 4, 5, 6, 7, 8, 9, 10, 11, 12] =
       [''Winter'', ''Winter'', ''Spring'', ''Spring'', ''Spring'', ''Summer'',
        ''Summer'', ''Summer'', ''Autumn'', ''Autumn'', ''Autumn'', ''Winter'']"
    by (simp add: get_season_def)
  have winter: "{m. 1 \<le> m \<and> m \<le> 12 \<and> get_season m = ''Winter''} = {12, 1, 2}"
    by (auto simp: get_season_def split: if_splits)
  have spring: "{m. 1 \<le> m \<and> m \<le> 12 \<and> get_season m = ''Spring''} = {3, 4, 5}"
    by (auto simp: get_season_def split: if_splits)
  have summer: "{m. 1 \<le> m \<and> m \<le> 12 \<and> get_season m = ''Summer''} = {6, 7, 8}"
    by (auto simp: get_season_def split: if_splits)
  have autumn: "{m. 1 \<le> m \<and> m \<le> 12 \<and> get_season m = ''Autumn''} = {9, 10, 11}"
    by (auto simp: get_season_def split: if_splits) arith
  from total table winter spring summer autumn show ?thesis
    by blast
qed

section \<open>Filtering by the date range\<close>

text \<open>The order on dates is a linear order.\<close>

lemma date_le_refl: "date_le d d"
  by (cases d) simp

lemma date_le_trans: "date_le a b \<Longrightarrow> date_le b c \<Longrightarrow> date_le a c"
  by (cases a; cases b; cases c) auto

lemma date_le_antisym: "date_le a b \<Longrightarrow> date_le b a \<Longrightarrow> a = b"
  by (cases a; cases b) auto

lemma date_le_total: "date_le a b \<or> date_le b a"
  by (cases a; cases b) auto

text \<open>
  Claim C2. With a range of exactly two bounds the filtered frame is the rows whose date
  lies between the bounds, both included, in their order; a row is in it exactly when it
  is a row of the frame with such a date. With any other range the frame is returned
  as it is.
\<close>

theorem df_filtered_inclusive:
  "df_filtered [start, stop] df =
     filter (\<lambda>r. date_le start (date r) \<and> date_le (date r) stop) df
   \<and> (r \<in> set (df_filtered [start, stop] df)
        \<longleftrightarrow> r \<in> set df \<and> date_le start (date r) \<and> date_le (date r) stop)
   \<and> (length date_range \<noteq> 2 \<longrightarrow> df_filtered date_range df = df)"
  by (simp add: df_filtered_def)

theorem df_filtered_inclusive_witness:
  "df_filtered [(2020, 1, 7), (2020, 2, 3)] equal_totals_frame =
     [sample_row (stamp 2020 Feb 3 Mon) (Some 21) (Some 4)]
   \<and> length [(2020, 1, 7) :: date] \<noteq> 2
   \<and> df_filtered [(2020, 1, 7)] equal_totals_frame = equal_totals_frame"
proof -
  have sel: "filter (\<lambda>r. date_le (2020, 1, 7) (date r) \<and> date_le (date r) (2020, 2, 3))
       equal_totals_frame = [sample_row (stamp 2020 Feb 3 Mon) (Some 21) (Some 4)]"
    by (simp add: equal_totals_frame_def sample_row_def derive_row_def dt_date_def stamp_def)
  have one: "length [(2020, 1, 7) :: date] \<noteq> 2"
    by simp
  from sel one
    df_filtered_inclusive [of "(2020, 1, 7)" "(2020, 2, 3)" equal_totals_frame undefined
      "[(2020, 1, 7)]"]
  show ?thesis
    by simp
qed

section \<open>The loaded frame is not changed\<close>

lemma run_script_start:
  "run_script date_range (session_start df) =
     \<lparr> store = Map.empty(0 \<mapsto> df, 1 \<mapsto> filtered_view date_range df),
       fresh = 2, var_df = 0, var_df_filtered = Some 1 \<rparr>"
  by (simp add: run_script_def session_start_def filter_step_def new_frame_def
      setitem_step_def filtered_view_def fun_upd_twist)

text \<open>
  Claim C8. After the filter and the four column assignments on the filtered frame, the
  variable \<open>df\<close> still points to the same object and that object is the loaded frame,
  every row and column as it was; the filtered frame is another object, and it holds the
  filtered rows with the new columns.
\<close>

theorem original_frame_unchanged:
  "store (run_script date_range (session_start df)) (var_df (session_start df)) = Some df
   \<and> var_df (run_script date_range (session_start df)) = var_df (session_start df)
   \<and> var_df_filtered (run_script date_range (session_start df)) \<noteq> Some (var_df (session_start df))
   \<and> (\<exists>a. var_df_filtered (run_script date_range (session_start df)) = Some a
          \<and> store (run_script date_range (session_start df)) a = Some (filtered_view date_range df))"
  by (simp add: run_script_start) (simp add: session_start_def)

end
